theory Spec2Isabelle
  imports Main "HOL-Library.Word" "HOL-Library.Code_Target_Numeral"
begin

section \<open>The MOAC JSON-RPC client (package moacrpc, file options.go)\<close>

text \<open>
  A shallow embedding of the dispatcher \<open>MoacRPC.Call\<close>, the generic decoder
  \<open>MoacRPC.call\<close> and the typed accessors built on them. What the Go code takes from
  outside the file is a parameter of the model: the transport is a field of the client
  (as in the source), and the behaviour of \<open>encoding/json\<close> on the types the file
  uses, together with the declarations of the package's other files, is the record
  \<open>extern\<close>. Calls to the transport, the response body and the logger are recorded,
  in order, in a trace of events.
\<close>

subsection \<open>Data\<close>

type_synonym bytes = string

text \<open>\<open>type MoacError struct { Code int; Message string }\<close>\<close>

record MoacError =
  Code :: int
  Message :: string

text \<open>
  Go's \<open>error\<close> interface. The only error type of the package is \<open>MoacError\<close>;
  every other error value comes from a library (\<open>encoding/json\<close>, the transport,
  the body reader, the hex decoders) and is kept as an opaque description.
\<close>

datatype error = ErrMoac MoacError | ErrOther string

text \<open>
  \<open>type ethResponse struct { ID int; JSONRPC string; Result json.RawMessage; Error *MoacError }\<close>.
  A \<open>json.RawMessage\<close> is a byte slice that may be nil, a \<open>*MoacError\<close> a pointer that
  may be nil: both are options.
\<close>

record ethResponse =
  response_ID :: int
  response_JSONRPC :: string
  Result :: "bytes option"
  Error :: "MoacError option"

definition new_ethResponse :: ethResponse where
  "new_ethResponse = \<lparr>response_ID = 0, response_JSONRPC = [], Result = None, Error = None\<rparr>"

text \<open>
  A value of type \<open>interface{}\<close> handed over as a request parameter: the accessors pass
  strings, booleans and values of the struct types \<open>T\<close> and \<open>FilterParams\<close>. The struct
  types declared in the other files of the package (\<open>T\<close>, \<open>FilterParams\<close>, \<open>Log\<close>,
  \<open>Transaction\<close>, \<open>TransactionReceipt\<close>, \<open>Block\<close> and the two proxy blocks) are not in
  options.go; their values are the type parameter \<open>'s\<close>.
\<close>

datatype 's param = PString string | PBool bool | PStruct 's

text \<open>
  A Go slice is a list: a nil slice and an empty slice are both \<open>[]\<close>, except for
  \<open>json.RawMessage\<close>, where the difference is kept. A pointer is an option, \<open>None\<close>
  for nil. Go's \<open>int\<close> and \<open>big.Int\<close> are both \<open>int\<close>; no arithmetic is done on them
  here, and the width of \<open>int\<close> is written out where it matters, in \<open>ParseInt\<close>.
\<close>

text \<open>
  \<open>type ethRequest struct { ID int; JSONRPC string; Method string; Params []interface{} }\<close>
\<close>

record 's ethRequest =
  ID :: int
  JSONRPC :: string
  Method :: string
  Params :: "'s param list"

text \<open>
  Modelled from the spec: the declaration of \<open>Syncing\<close> is not in options.go. The spec
  (section 3) describes it as a single type with a boolean discriminant plus the three
  numeric fields starting, current and highest block.
\<close>

record Syncing =
  IsSyncing :: bool
  StartingBlock :: int
  CurrentBlock :: int
  HighestBlock :: int

text \<open>\<open>new(Syncing)\<close>: every field at its zero value.\<close>

definition new_Syncing :: Syncing where
  "new_Syncing = \<lparr>IsSyncing = False, StartingBlock = 0, CurrentBlock = 0, HighestBlock = 0\<rparr>"

text \<open>
  An \<open>*http.Response\<close> as far as \<open>Call\<close> looks at it: its \<open>Body\<close>, given by what
  \<open>ioutil.ReadAll\<close> returns on it (the data and the error).
\<close>

record http_Response =
  Body :: "bytes \<times> error option"

text \<open>
  \<open>type MoacRPC struct { url string; client httpClient; log logger; Debug bool }\<close>.
  The \<open>client\<close> is its method \<open>Post(url, contentType, body)\<close>, which returns a response
  pointer and an error, each possibly nil. The \<open>log\<close> field is the sink of the
  \<open>Println\<close> events of the trace.
\<close>

record MoacRPC =
  url :: string
  client :: "string \<Rightarrow> string \<Rightarrow> bytes \<Rightarrow> http_Response option \<times> error option"
  Debug :: bool

text \<open>
  What options.go uses and does not define. \<open>Marshal\<close> is \<open>json.Marshal\<close> on a
  request; each \<open>Unmarshal_T data v\<close> is \<open>json.Unmarshal(data, &v)\<close> on a target of type
  \<open>T\<close> holding \<open>v\<close>, returning the target afterwards and the error. The \<open>new_T\<close> are
  the zero values \<open>new(T)\<close> of struct types declared elsewhere, and \<open>toBlock\<close> is the
  method of the \<open>proxyBlock\<close> interface.
\<close>

record 's extern =
  Marshal :: "'s ethRequest \<Rightarrow> error + bytes"
  Unmarshal_ethResponse :: "bytes \<Rightarrow> ethResponse \<Rightarrow> ethResponse \<times> error option"
  Unmarshal_string :: "bytes \<Rightarrow> string \<Rightarrow> string \<times> error option"
  Unmarshal_bool :: "bytes \<Rightarrow> bool \<Rightarrow> bool \<times> error option"
  Unmarshal_strings :: "bytes \<Rightarrow> string list \<Rightarrow> string list \<times> error option"
  Unmarshal_Syncing :: "bytes \<Rightarrow> Syncing \<Rightarrow> Syncing \<times> error option"
  Unmarshal_Logs :: "bytes \<Rightarrow> 's list \<Rightarrow> 's list \<times> error option"
  Unmarshal_Transaction :: "bytes \<Rightarrow> 's \<Rightarrow> 's \<times> error option"
  Unmarshal_TransactionReceipt :: "bytes \<Rightarrow> 's \<Rightarrow> 's \<times> error option"
  Unmarshal_proxyBlock :: "bytes \<Rightarrow> 's \<Rightarrow> 's \<times> error option"
  new_Transaction :: 's
  new_TransactionReceipt :: 's
  new_proxyBlockWithTransactions :: 's
  new_proxyBlockWithoutTransactions :: 's
  toBlock :: "'s \<Rightarrow> 's"

subsection \<open>Effects and outcomes\<close>

text \<open>
  The calls a function makes on its collaborators, in order: the POST with its url,
  content type and body, the read of the response body, the deferred close of the
  response body, and a line handed to the logger.
\<close>

datatype event = Post string string bytes | ReadAll | Close | Println string

text \<open>A Go function either returns its results or panics (a nil pointer dereference).\<close>

datatype 'a outcome = Return 'a | Panic

type_synonym 'a go = "'a outcome \<times> event list"

fun on_return :: "('a \<Rightarrow> 'b) \<Rightarrow> 'a go \<Rightarrow> 'b go" where
  "on_return f (Return x, tr) = (Return (f x), tr)"
| "on_return f (Panic, tr) = (Panic, tr)"

text \<open>The bytes of a possibly nil slice: a nil slice has no bytes.\<close>

definition raw :: "bytes option \<Rightarrow> bytes" where
  "raw m = (case m of None \<Rightarrow> [] | Some b \<Rightarrow> b)"

text \<open>The variable \<open>v\<close> after a call that was handed the pointer \<open>p\<close> to it.\<close>

definition pointee :: "'a \<Rightarrow> 'a option \<Rightarrow> 'a" where
  "pointee v p = (case p of None \<Rightarrow> v | Some v' \<Rightarrow> v')"

subsection \<open>The dispatcher\<close>

text \<open>\<open>fmt.Sprintf("%s\nRequest: %s\nResponse: %s\n", method, body, data)\<close>\<close>

definition debug_line :: "string \<Rightarrow> bytes \<Rightarrow> bytes \<Rightarrow> string" where
  "debug_line method body data =
     method @ [CHR 0x0A] @ ''Request: '' @ body @ [CHR 0x0A] @ ''Response: '' @ data @ [CHR 0x0A]"

text \<open>
  \<open>func (rpc *MoacRPC) Call(method string, params ...interface{}) (json.RawMessage, error)\<close>.
  The deferred \<open>response.Body.Close()\<close> is registered when the response is not nil and
  runs when the function leaves, after everything else. Reading the body of a nil
  response (nil response, nil error) is a nil pointer dereference.
\<close>

definition Call :: "'s extern \<Rightarrow> MoacRPC \<Rightarrow> string \<Rightarrow> 's param list \<Rightarrow> (bytes option \<times> error option) go" where
  "Call X rpc method params =
     (let request = \<lparr>ID = 1, JSONRPC = ''2.0'', Method = method, Params = params\<rparr> in
      case Marshal X request of
        Inl err \<Rightarrow> (Return (None, Some err), [])
      | Inr body \<Rightarrow>
          (let (response, err) = client rpc (url rpc) ''application/json'' body;
               posted = [Post (url rpc) ''application/json'' body];
               deferred = (if response \<noteq> None then [Close] else [])
           in case err of
                Some e \<Rightarrow> (Return (None, Some e), posted @ deferred)
              | None \<Rightarrow>
                  (case response of
                     None \<Rightarrow> (Panic, posted @ deferred)
                   | Some r \<Rightarrow>
                       (let (data, err) = Body r in
                        case err of
                          Some e \<Rightarrow> (Return (None, Some e), posted @ [ReadAll] @ deferred)
                        | None \<Rightarrow>
                            (let logged = (if Debug rpc then [Println (debug_line method body data)] else []);
                                 (resp, err) = Unmarshal_ethResponse X data new_ethResponse;
                                 tr = posted @ [ReadAll] @ logged @ deferred
                             in case err of
                                  Some e \<Rightarrow> (Return (None, Some e), tr)
                                | None \<Rightarrow>
                                    (case Error resp of
                                       Some e \<Rightarrow> (Return (None, Some (ErrMoac e)), tr)
                                     | None \<Rightarrow> (Return (Result resp, None), tr)))))))"

text \<open>
  \<open>func (rpc *MoacRPC) call(method string, target interface{}, params ...interface{}) error\<close>.
  The target is a pointer, possibly nil, to a variable of the type that \<open>unmarshal\<close>
  decodes; the result is the variable behind the pointer after the call, and the error.
\<close>

definition call :: "'s extern \<Rightarrow> MoacRPC \<Rightarrow> string \<Rightarrow> (bytes \<Rightarrow> 'a \<Rightarrow> 'a \<times> error option) \<Rightarrow> 'a option \<Rightarrow> 's param list \<Rightarrow> ('a option \<times> error option) go" where
  "call X rpc method unmarshal target params =
     on_return
       (\<lambda>(result, err).
          case err of
            Some e \<Rightarrow> (target, Some e)
          | None \<Rightarrow>
              (case target of
                 None \<Rightarrow> (None, None)
               | Some v \<Rightarrow> (let (v', err) = unmarshal (raw result) v in (Some v', err))))
       (Call X rpc method params)"

text \<open>\<open>func (rpc *MoacRPC) RawCall(method string, params ...interface{}) (json.RawMessage, error)\<close>\<close>

definition RawCall :: "'s extern \<Rightarrow> MoacRPC \<Rightarrow> string \<Rightarrow> 's param list \<Rightarrow> (bytes option \<times> error option) go" where
  "RawCall X rpc method params = Call X rpc method params"

subsection \<open>The numeric codec\<close>

text \<open>
  Modelled from the spec: \<open>IntToHex\<close>, \<open>ParseInt\<close> and \<open>ParseBigInt\<close> are defined in
  another file of the package, not in options.go. The functions of this subsection
  follow section 4.1 of the spec. Hexadecimal digits are written most significant
  first, without leading zeros; both cases of the letters are read.
\<close>

definition hex_digit :: "nat \<Rightarrow> char" where
  "hex_digit d = ''0123456789abcdef'' ! d"

fun hex_digits :: "nat \<Rightarrow> string" where
  "hex_digits n = (if n < 16 then [hex_digit n] else hex_digits (n div 16) @ [hex_digit (n mod 16)])"

definition digit_val :: "char \<Rightarrow> nat option" where
  "digit_val c =
     (let k = (of_char c :: nat) in
      if 48 \<le> k \<and> k \<le> 57 then Some (k - 48)
      else if 97 \<le> k \<and> k \<le> 102 then Some (k - 87)
      else if 65 \<le> k \<and> k \<le> 70 then Some (k - 55)
      else None)"

fun hex_value :: "nat \<Rightarrow> string \<Rightarrow> nat option" where
  "hex_value acc [] = Some acc"
| "hex_value acc (c # cs) =
     (case digit_val c of None \<Rightarrow> None | Some d \<Rightarrow> hex_value (16 * acc + d) cs)"

text \<open>The value of a \<open>0x\<close>-prefixed hexadecimal string with at least one digit.\<close>

definition parse_hex :: "string \<Rightarrow> nat option" where
  "parse_hex s =
     (case s of
        a # b # ds \<Rightarrow>
          (if a = CHR ''0'' \<and> b = CHR ''x'' \<and> ds \<noteq> [] then hex_value 0 ds else None)
      | _ \<Rightarrow> None)"

text \<open>
  Modelled from the spec: \<open>IntToHex(n)\<close> "encodes a non-negative integer as a
  0x-prefixed lowercase hex string. No sign handling". A negative argument has no
  representation in the spec; here it is encoded like 0.
\<close>

definition IntToHex :: "int \<Rightarrow> string" where
  "IntToHex n = ''0x'' @ hex_digits (nat n)"

text \<open>
  Modelled from the spec: \<open>ParseInt(hex)\<close> "decodes a 0x-prefixed hex string to a native
  integer; fails with a DecodeError if the string is malformed or overflows the native
  integer width". The native integer is Go's \<open>int\<close>, 64 bits wide and signed; a failure
  returns the zero value and the error (spec, section 7).
\<close>

definition ParseInt :: "string \<Rightarrow> int \<times> error option" where
  "ParseInt s =
     (case parse_hex s of
        None \<Rightarrow> (0, Some (ErrOther ''DecodeError''))
      | Some v \<Rightarrow> (if v < 2 ^ 63 then (int v, None) else (0, Some (ErrOther ''DecodeError''))))"

text \<open>
  Modelled from the spec: \<open>ParseBigInt(hex)\<close> is "as above but decodes into an
  arbitrary-precision integer" and "must not silently truncate".
\<close>

definition ParseBigInt :: "string \<Rightarrow> int \<times> error option" where
  "ParseBigInt s =
     (case parse_hex s of
        None \<Rightarrow> (0, Some (ErrOther ''DecodeError''))
      | Some v \<Rightarrow> (int v, None))"

text \<open>\<open>fmt.Sprintf("0x%x", data)\<close> on a byte slice: two lowercase digits for each byte.\<close>

definition hex_bytes :: "bytes \<Rightarrow> string" where
  "hex_bytes data =
     ''0x'' @ concat (map (\<lambda>c. [hex_digit (of_char c div 16), hex_digit (of_char c mod 16)]) data)"

subsection \<open>The typed accessors\<close>

text \<open>
  Each accessor declares its variable, hands \<open>call\<close> a pointer to it and returns the
  variable and the error, or decodes the variable further. The definitions carry the
  names of the Go methods and follow the file's order.
\<close>

definition Chain3ClientVersion :: "'s extern \<Rightarrow> MoacRPC \<Rightarrow> (string \<times> error option) go" where
  "Chain3ClientVersion X rpc =
     (let clientVersion = '''' in
      on_return (\<lambda>(target, err). (pointee clientVersion target, err))
        (call X rpc ''chain3_clientVersion'' (Unmarshal_string X) (Some clientVersion) []))"

definition Chain3Sha3 :: "'s extern \<Rightarrow> MoacRPC \<Rightarrow> bytes \<Rightarrow> (string \<times> error option) go" where
  "Chain3Sha3 X rpc data =
     (let hash = '''' in
      on_return (\<lambda>(target, err). (pointee hash target, err))
        (call X rpc ''chain3_sha3'' (Unmarshal_string X) (Some hash) [PString (hex_bytes data)]))"

definition NetVersion :: "'s extern \<Rightarrow> MoacRPC \<Rightarrow> (string \<times> error option) go" where
  "NetVersion X rpc =
     (let version = '''' in
      on_return (\<lambda>(target, err). (pointee version target, err))
        (call X rpc ''net_version'' (Unmarshal_string X) (Some version) []))"

definition NetListening :: "'s extern \<Rightarrow> MoacRPC \<Rightarrow> (bool \<times> error option) go" where
  "NetListening X rpc =
     (let listening = False in
      on_return (\<lambda>(target, err). (pointee listening target, err))
        (call X rpc ''net_listening'' (Unmarshal_bool X) (Some listening) []))"

definition NetPeerCount :: "'s extern \<Rightarrow> MoacRPC \<Rightarrow> (int \<times> error option) go" where
  "NetPeerCount X rpc =
     (let response = '''' in
      on_return
        (\<lambda>(target, err).
           case err of Some e \<Rightarrow> (0, Some e) | None \<Rightarrow> ParseInt (pointee response target))
        (call X rpc ''net_peerCount'' (Unmarshal_string X) (Some response) []))"

definition MoacProtocolVersion :: "'s extern \<Rightarrow> MoacRPC \<Rightarrow> (string \<times> error option) go" where
  "MoacProtocolVersion X rpc =
     (let protocolVersion = '''' in
      on_return (\<lambda>(target, err). (pointee protocolVersion target, err))
        (call X rpc ''mc_protocolVersion'' (Unmarshal_string X) (Some protocolVersion) []))"

text \<open>
  \<open>MoacSyncing\<close> goes through \<open>RawCall\<close> and decodes by itself: the literal \<open>false\<close> is
  compared byte for byte (\<open>bytes.Equal\<close>), anything else is unmarshalled into the new
  \<open>Syncing\<close>, which is returned with the error of the decoding.
\<close>

definition MoacSyncing :: "'s extern \<Rightarrow> MoacRPC \<Rightarrow> (Syncing option \<times> error option) go" where
  "MoacSyncing X rpc =
     on_return
       (\<lambda>(result, err).
          case err of
            Some e \<Rightarrow> (None, Some e)
          | None \<Rightarrow>
              (let syncing = new_Syncing in
               if raw result = ''false'' then (Some syncing, None)
               else (let (syncing', err) = Unmarshal_Syncing X (raw result) syncing
                     in (Some syncing', err))))
       (RawCall X rpc ''mc_syncing'' [])"

definition MoacCoinbase :: "'s extern \<Rightarrow> MoacRPC \<Rightarrow> (string \<times> error option) go" where
  "MoacCoinbase X rpc =
     (let address = '''' in
      on_return (\<lambda>(target, err). (pointee address target, err))
        (call X rpc ''mc_coinbase'' (Unmarshal_string X) (Some address) []))"

definition MoacMining :: "'s extern \<Rightarrow> MoacRPC \<Rightarrow> (bool \<times> error option) go" where
  "MoacMining X rpc =
     (let mining = False in
      on_return (\<lambda>(target, err). (pointee mining target, err))
        (call X rpc ''mc_mining'' (Unmarshal_bool X) (Some mining) []))"

definition MoacHashrate :: "'s extern \<Rightarrow> MoacRPC \<Rightarrow> (int \<times> error option) go" where
  "MoacHashrate X rpc =
     (let response = '''' in
      on_return
        (\<lambda>(target, err).
           case err of Some e \<Rightarrow> (0, Some e) | None \<Rightarrow> ParseInt (pointee response target))
        (call X rpc ''mc_hashrate'' (Unmarshal_string X) (Some response) []))"

definition MoacGasPrice :: "'s extern \<Rightarrow> MoacRPC \<Rightarrow> (int \<times> error option) go" where
  "MoacGasPrice X rpc =
     (let response = '''' in
      on_return
        (\<lambda>(target, err).
           case err of Some e \<Rightarrow> (0, Some e) | None \<Rightarrow> ParseBigInt (pointee response target))
        (call X rpc ''mc_gasPrice'' (Unmarshal_string X) (Some response) []))"

definition MoacAccounts :: "'s extern \<Rightarrow> MoacRPC \<Rightarrow> (string list \<times> error option) go" where
  "MoacAccounts X rpc =
     (let accounts = [] in
      on_return (\<lambda>(target, err). (pointee accounts target, err))
        (call X rpc ''mc_accounts'' (Unmarshal_strings X) (Some accounts) []))"

definition MoacBlockNumber :: "'s extern \<Rightarrow> MoacRPC \<Rightarrow> (int \<times> error option) go" where
  "MoacBlockNumber X rpc =
     (let response = '''' in
      on_return
        (\<lambda>(target, err).
           case err of Some e \<Rightarrow> (0, Some e) | None \<Rightarrow> ParseInt (pointee response target))
        (call X rpc ''mc_blockNumber'' (Unmarshal_string X) (Some response) []))"

definition MoacGetBalance :: "'s extern \<Rightarrow> MoacRPC \<Rightarrow> string \<Rightarrow> string \<Rightarrow> (int \<times> error option) go" where
  "MoacGetBalance X rpc address block =
     (let response = '''' in
      on_return
        (\<lambda>(target, err).
           case err of Some e \<Rightarrow> (0, Some e) | None \<Rightarrow> ParseBigInt (pointee response target))
        (call X rpc ''mc_getBalance'' (Unmarshal_string X) (Some response) [PString address, PString block]))"

definition MoacGetStorageAt :: "'s extern \<Rightarrow> MoacRPC \<Rightarrow> string \<Rightarrow> int \<Rightarrow> string \<Rightarrow> (string \<times> error option) go" where
  "MoacGetStorageAt X rpc data position tag =
     (let result = '''' in
      on_return (\<lambda>(target, err). (pointee result target, err))
        (call X rpc ''mc_getStorageAt'' (Unmarshal_string X) (Some result) [PString data, PString (IntToHex position), PString tag]))"

definition MoacGetTransactionCount :: "'s extern \<Rightarrow> MoacRPC \<Rightarrow> string \<Rightarrow> string \<Rightarrow> (int \<times> error option) go" where
  "MoacGetTransactionCount X rpc address block =
     (let response = '''' in
      on_return
        (\<lambda>(target, err).
           case err of Some e \<Rightarrow> (0, Some e) | None \<Rightarrow> ParseInt (pointee response target))
        (call X rpc ''mc_getTransactionCount'' (Unmarshal_string X) (Some response) [PString address, PString block]))"

definition MoacGetBlockTransactionCountByHash :: "'s extern \<Rightarrow> MoacRPC \<Rightarrow> string \<Rightarrow> (int \<times> error option) go" where
  "MoacGetBlockTransactionCountByHash X rpc hash =
     (let response = '''' in
      on_return
        (\<lambda>(target, err).
           case err of Some e \<Rightarrow> (0, Some e) | None \<Rightarrow> ParseInt (pointee response target))
        (call X rpc ''mc_getBlockTransactionCountByHash'' (Unmarshal_string X) (Some response) [PString hash]))"

definition MoacGetBlockTransactionCountByNumber :: "'s extern \<Rightarrow> MoacRPC \<Rightarrow> int \<Rightarrow> (int \<times> error option) go" where
  "MoacGetBlockTransactionCountByNumber X rpc number =
     (let response = '''' in
      on_return
        (\<lambda>(target, err).
           case err of Some e \<Rightarrow> (0, Some e) | None \<Rightarrow> ParseInt (pointee response target))
        (call X rpc ''mc_getBlockTransactionCountByNumber'' (Unmarshal_string X) (Some response) [PString (IntToHex number)]))"

definition MoacGetUncleCountByBlockHash :: "'s extern \<Rightarrow> MoacRPC \<Rightarrow> string \<Rightarrow> (int \<times> error option) go" where
  "MoacGetUncleCountByBlockHash X rpc hash =
     (let response = '''' in
      on_return
        (\<lambda>(target, err).
           case err of Some e \<Rightarrow> (0, Some e) | None \<Rightarrow> ParseInt (pointee response target))
        (call X rpc ''mc_getUncleCountByBlockHash'' (Unmarshal_string X) (Some response) [PString hash]))"

definition MoacGetUncleCountByBlockNumber :: "'s extern \<Rightarrow> MoacRPC \<Rightarrow> int \<Rightarrow> (int \<times> error option) go" where
  "MoacGetUncleCountByBlockNumber X rpc number =
     (let response = '''' in
      on_return
        (\<lambda>(target, err).
           case err of Some e \<Rightarrow> (0, Some e) | None \<Rightarrow> ParseInt (pointee response target))
        (call X rpc ''mc_getUncleCountByBlockNumber'' (Unmarshal_string X) (Some response) [PString (IntToHex number)]))"

definition MoacGetCode :: "'s extern \<Rightarrow> MoacRPC \<Rightarrow> string \<Rightarrow> string \<Rightarrow> (string \<times> error option) go" where
  "MoacGetCode X rpc address block =
     (let code = '''' in
      on_return (\<lambda>(target, err). (pointee code target, err))
        (call X rpc ''mc_getCode'' (Unmarshal_string X) (Some code) [PString address, PString block]))"

definition MoacSign :: "'s extern \<Rightarrow> MoacRPC \<Rightarrow> string \<Rightarrow> string \<Rightarrow> (string \<times> error option) go" where
  "MoacSign X rpc address data =
     (let signature = '''' in
      on_return (\<lambda>(target, err). (pointee signature target, err))
        (call X rpc ''mc_sign'' (Unmarshal_string X) (Some signature) [PString address, PString data]))"

definition MoacSendTransaction :: "'s extern \<Rightarrow> MoacRPC \<Rightarrow> 's \<Rightarrow> (string \<times> error option) go" where
  "MoacSendTransaction X rpc transaction =
     (let hash = '''' in
      on_return (\<lambda>(target, err). (pointee hash target, err))
        (call X rpc ''mc_sendTransaction'' (Unmarshal_string X) (Some hash) [PStruct transaction]))"

definition MoacSendRawTransaction :: "'s extern \<Rightarrow> MoacRPC \<Rightarrow> string \<Rightarrow> (string \<times> error option) go" where
  "MoacSendRawTransaction X rpc data =
     (let hash = '''' in
      on_return (\<lambda>(target, err). (pointee hash target, err))
        (call X rpc ''mc_sendRawTransaction'' (Unmarshal_string X) (Some hash) [PString data]))"

definition MoacCall :: "'s extern \<Rightarrow> MoacRPC \<Rightarrow> 's \<Rightarrow> string \<Rightarrow> (string \<times> error option) go" where
  "MoacCall X rpc transaction tag =
     (let data = '''' in
      on_return (\<lambda>(target, err). (pointee data target, err))
        (call X rpc ''mc_call'' (Unmarshal_string X) (Some data) [PStruct transaction, PString tag]))"

definition MoacEstimateGas :: "'s extern \<Rightarrow> MoacRPC \<Rightarrow> 's \<Rightarrow> (int \<times> error option) go" where
  "MoacEstimateGas X rpc transaction =
     (let response = '''' in
      on_return
        (\<lambda>(target, err).
           case err of Some e \<Rightarrow> (0, Some e) | None \<Rightarrow> ParseInt (pointee response target))
        (call X rpc ''mc_estimateGas'' (Unmarshal_string X) (Some response) [PStruct transaction]))"

text \<open>
  \<open>getBlock\<close>: the variable \<open>response\<close> of interface type \<open>proxyBlock\<close> holds a new
  proxy of one of the two shapes; after a failed call the result is nil.
\<close>

definition getBlock :: "'s extern \<Rightarrow> MoacRPC \<Rightarrow> string \<Rightarrow> bool \<Rightarrow> 's param list \<Rightarrow> ('s option \<times> error option) go" where
  "getBlock X rpc method withTransactions params =
     (let response = (if withTransactions then new_proxyBlockWithTransactions X
                      else new_proxyBlockWithoutTransactions X) in
      on_return
        (\<lambda>(target, err).
           case err of
             Some e \<Rightarrow> (None, Some e)
           | None \<Rightarrow> (let block = toBlock X (pointee response target) in (Some block, None)))
        (call X rpc method (Unmarshal_proxyBlock X) (Some response) params))"

definition MoacGetBlockByHash :: "'s extern \<Rightarrow> MoacRPC \<Rightarrow> string \<Rightarrow> bool \<Rightarrow> ('s option \<times> error option) go" where
  "MoacGetBlockByHash X rpc hash withTransactions =
     getBlock X rpc ''mc_getBlockByHash'' withTransactions [PString hash, PBool withTransactions]"

definition MoacGetBlockByNumber :: "'s extern \<Rightarrow> MoacRPC \<Rightarrow> int \<Rightarrow> bool \<Rightarrow> ('s option \<times> error option) go" where
  "MoacGetBlockByNumber X rpc number withTransactions =
     getBlock X rpc ''mc_getBlockByNumber'' withTransactions
       [PString (IntToHex number), PBool withTransactions]"

text \<open>
  \<open>getTransaction\<close> returns the pointer \<open>transaction\<close> it allocated, which is never nil,
  together with the error of \<open>call\<close>.
\<close>

definition getTransaction :: "'s extern \<Rightarrow> MoacRPC \<Rightarrow> string \<Rightarrow> 's param list \<Rightarrow> ('s option \<times> error option) go" where
  "getTransaction X rpc method params =
     (let transaction = new_Transaction X in
      on_return (\<lambda>(target, err). (Some (pointee transaction target), err))
        (call X rpc method (Unmarshal_Transaction X) (Some transaction) params))"

definition MoacGetTransactionByHash :: "'s extern \<Rightarrow> MoacRPC \<Rightarrow> string \<Rightarrow> ('s option \<times> error option) go" where
  "MoacGetTransactionByHash X rpc hash =
     getTransaction X rpc ''mc_getTransactionByHash'' [PString hash]"

definition MoacGetTransactionByBlockHashAndIndex :: "'s extern \<Rightarrow> MoacRPC \<Rightarrow> string \<Rightarrow> int \<Rightarrow> ('s option \<times> error option) go" where
  "MoacGetTransactionByBlockHashAndIndex X rpc blockHash transactionIndex =
     getTransaction X rpc ''mc_getTransactionByBlockHashAndIndex''
       [PString blockHash, PString (IntToHex transactionIndex)]"

definition MoacGetTransactionByBlockNumberAndIndex :: "'s extern \<Rightarrow> MoacRPC \<Rightarrow> int \<Rightarrow> int \<Rightarrow> ('s option \<times> error option) go" where
  "MoacGetTransactionByBlockNumberAndIndex X rpc blockNumber transactionIndex =
     getTransaction X rpc ''mc_getTransactionByBlockNumberAndIndex''
       [PString (IntToHex blockNumber), PString (IntToHex transactionIndex)]"

definition MoacGetTransactionReceipt :: "'s extern \<Rightarrow> MoacRPC \<Rightarrow> string \<Rightarrow> ('s option \<times> error option) go" where
  "MoacGetTransactionReceipt X rpc hash =
     (let transactionReceipt = new_TransactionReceipt X in
      on_return
        (\<lambda>(target, err).
           case err of
             Some e \<Rightarrow> (None, Some e)
           | None \<Rightarrow> (Some (pointee transactionReceipt target), None))
        (call X rpc ''mc_getTransactionReceipt'' (Unmarshal_TransactionReceipt X)
           (Some transactionReceipt) [PString hash]))"

definition MoacGetCompilers :: "'s extern \<Rightarrow> MoacRPC \<Rightarrow> (string list \<times> error option) go" where
  "MoacGetCompilers X rpc =
     (let compilers = [] in
      on_return (\<lambda>(target, err). (pointee compilers target, err))
        (call X rpc ''mc_getCompilers'' (Unmarshal_strings X) (Some compilers) []))"

definition MoacNewFilter :: "'s extern \<Rightarrow> MoacRPC \<Rightarrow> 's \<Rightarrow> (string \<times> error option) go" where
  "MoacNewFilter X rpc params =
     (let filterID = '''' in
      on_return (\<lambda>(target, err). (pointee filterID target, err))
        (call X rpc ''mc_newFilter'' (Unmarshal_string X) (Some filterID) [PStruct params]))"

definition MoacNewBlockFilter :: "'s extern \<Rightarrow> MoacRPC \<Rightarrow> (string \<times> error option) go" where
  "MoacNewBlockFilter X rpc =
     (let filterID = '''' in
      on_return (\<lambda>(target, err). (pointee filterID target, err))
        (call X rpc ''mc_newBlockFilter'' (Unmarshal_string X) (Some filterID) []))"

definition MoacNewPendingTransactionFilter :: "'s extern \<Rightarrow> MoacRPC \<Rightarrow> (string \<times> error option) go" where
  "MoacNewPendingTransactionFilter X rpc =
     (let filterID = '''' in
      on_return (\<lambda>(target, err). (pointee filterID target, err))
        (call X rpc ''mc_newPendingTransactionFilter'' (Unmarshal_string X) (Some filterID) []))"

definition MoacUninstallFilter :: "'s extern \<Rightarrow> MoacRPC \<Rightarrow> string \<Rightarrow> (bool \<times> error option) go" where
  "MoacUninstallFilter X rpc filterID =
     (let res = False in
      on_return (\<lambda>(target, err). (pointee res target, err))
        (call X rpc ''mc_uninstallFilter'' (Unmarshal_bool X) (Some res) [PString filterID]))"

definition MoacGetFilterChanges :: "'s extern \<Rightarrow> MoacRPC \<Rightarrow> string \<Rightarrow> ('s list \<times> error option) go" where
  "MoacGetFilterChanges X rpc filterID =
     (let logs = [] in
      on_return (\<lambda>(target, err). (pointee logs target, err))
        (call X rpc ''mc_getFilterChanges'' (Unmarshal_Logs X) (Some logs) [PString filterID]))"

definition MoacGetFilterLogs :: "'s extern \<Rightarrow> MoacRPC \<Rightarrow> string \<Rightarrow> ('s list \<times> error option) go" where
  "MoacGetFilterLogs X rpc filterID =
     (let logs = [] in
      on_return (\<lambda>(target, err). (pointee logs target, err))
        (call X rpc ''mc_getFilterLogs'' (Unmarshal_Logs X) (Some logs) [PString filterID]))"

definition MoacGetLogs :: "'s extern \<Rightarrow> MoacRPC \<Rightarrow> 's \<Rightarrow> ('s list \<times> error option) go" where
  "MoacGetLogs X rpc params =
     (let logs = [] in
      on_return (\<lambda>(target, err). (pointee logs target, err))
        (call X rpc ''mc_getLogs'' (Unmarshal_Logs X) (Some logs) [PStruct params]))"

text \<open>
  \<open>big.NewInt(x int64)\<close>, and the two \<open>Moac1\<close>: the method of the client and the free
  function. The pointers they return are never nil; the big integer is its value.
\<close>

definition big_NewInt :: "64 word \<Rightarrow> int" where
  "big_NewInt x = sint x"

definition Moac1 :: int where
  "Moac1 = big_NewInt 1000000000000000000"

definition MoacRPC_Moac1 :: "MoacRPC \<Rightarrow> int" where
  "MoacRPC_Moac1 rpc = Moac1"

subsection \<open>Observations on a run\<close>

text \<open>
  What a caller sees of a run: the results it returned, the error among them, the lines
  handed to the logger and the bodies posted, each read off the outcome and the trace.
\<close>

definition returns :: "'a go \<Rightarrow> 'a \<Rightarrow> bool" where
  "returns r v \<longleftrightarrow> fst r = Return v"

definition returned_error :: "('a \<times> error option) go \<Rightarrow> error option" where
  "returned_error r = (case fst r of Return (v, err) \<Rightarrow> err | Panic \<Rightarrow> None)"

definition printed :: "'a go \<Rightarrow> string list" where
  "printed r = concat (map (\<lambda>ev. case ev of Println s \<Rightarrow> [s] | _ \<Rightarrow> []) (snd r))"

definition posted :: "'a go \<Rightarrow> bytes list" where
  "posted r = concat (map (\<lambda>ev. case ev of Post u c b \<Rightarrow> [b] | _ \<Rightarrow> []) (snd r))"

text \<open>
  The exchange of a call, when it completes: the request was serialised to \<open>body\<close>, the
  POST returned a response and no error, and the response body was read in full as
  \<open>data\<close>.
\<close>

definition exchange :: "'s extern \<Rightarrow> MoacRPC \<Rightarrow> string \<Rightarrow> 's param list \<Rightarrow> (bytes \<times> bytes) option" where
  "exchange X rpc method params =
     (case Marshal X \<lparr>ID = 1, JSONRPC = ''2.0'', Method = method, Params = params\<rparr> of
        Inl e \<Rightarrow> None
      | Inr body \<Rightarrow>
          (case client rpc (url rpc) ''application/json'' body of
             (Some r, None) \<Rightarrow>
               (case Body r of (data, None) \<Rightarrow> Some (body, data) | (data, Some e) \<Rightarrow> None)
           | (None, None) \<Rightarrow> None
           | (response, Some e) \<Rightarrow> None))"

text \<open>
  The response body that a call reads, when its exchange completes.
\<close>

definition received :: "'s extern \<Rightarrow> MoacRPC \<Rightarrow> string \<Rightarrow> 's param list \<Rightarrow> bytes option" where
  "received X rpc method params = map_option snd (exchange X rpc method params)"


subsection \<open>Test doubles\<close>

text \<open>
  A fake of the collaborators, to run the client on concrete inputs: the encoder writes
  the method name and the parameters, separated by spaces; the envelope decoder is a
  given table; a string is decoded by removing its quotes, a boolean from its literal,
  and a sync status from the empty object, to blocks 1, 2 and 3; the other decoders
  fail, and a decoder that fails leaves its target alone. Struct values are numbers, 0 for a new one. The
  fake transport gives every request the same response and error.
\<close>

definition quoted :: "string \<Rightarrow> bytes" where
  "quoted s = [CHR 0x22] @ s @ [CHR 0x22]"

definition unquote :: "bytes \<Rightarrow> string option" where
  "unquote data =
     (case data of
        [] \<Rightarrow> None
      | c # cs \<Rightarrow>
          (if c = CHR 0x22 \<and> cs \<noteq> [] \<and> last cs = CHR 0x22 then Some (butlast cs) else None))"

definition fake_param :: "nat param \<Rightarrow> string" where
  "fake_param p =
     (case p of
        PString s \<Rightarrow> s
      | PBool b \<Rightarrow> (if b then ''true'' else ''false'')
      | PStruct n \<Rightarrow> ''{}'')"

definition fake_extern :: "(bytes \<Rightarrow> ethResponse \<times> error option) \<Rightarrow> nat extern" where
  "fake_extern envelope =
     \<lparr>Marshal =
        (\<lambda>request. Inr (Method request @ concat (map (\<lambda>p. '' '' @ fake_param p) (Params request)))),
      Unmarshal_ethResponse = (\<lambda>data v. envelope data),
      Unmarshal_string =
        (\<lambda>data v. case unquote data of Some s \<Rightarrow> (s, None) | None \<Rightarrow> (v, Some (ErrOther ''json''))),
      Unmarshal_bool =
        (\<lambda>data v. if data = ''true'' then (True, None) else if data = ''false'' then (False, None)
                   else (v, Some (ErrOther ''json''))),
      Unmarshal_strings = (\<lambda>data v. (v, Some (ErrOther ''json''))),
      Unmarshal_Syncing =
        (\<lambda>data v. if data = ''{}''
                   then (\<lparr>IsSyncing = True, StartingBlock = 1, CurrentBlock = 2,
                           HighestBlock = 3\<rparr>, None)
                   else (v, Some (ErrOther ''json''))),
      Unmarshal_Logs = (\<lambda>data v. (v, Some (ErrOther ''json''))),
      Unmarshal_Transaction = (\<lambda>data v. (v, Some (ErrOther ''json''))),
      Unmarshal_TransactionReceipt = (\<lambda>data v. (v, Some (ErrOther ''json''))),
      Unmarshal_proxyBlock = (\<lambda>data v. (v, Some (ErrOther ''json''))),
      new_Transaction = 0,
      new_TransactionReceipt = 0,
      new_proxyBlockWithTransactions = 0,
      new_proxyBlockWithoutTransactions = 0,
      toBlock = (\<lambda>p. p)\<rparr>"

definition fake_rpc :: "http_Response option \<times> error option \<Rightarrow> bool \<Rightarrow> MoacRPC" where
  "fake_rpc reply debug =
     \<lparr>url = ''http://127.0.0.1:8545'', client = (\<lambda>u contentType body. reply), Debug = debug\<rparr>"

text \<open>An envelope with the given result and error fields.\<close>

definition envelope_of :: "bytes option \<Rightarrow> MoacError option \<Rightarrow> bytes \<Rightarrow> ethResponse \<times> error option" where
  "envelope_of result err data =
     (\<lparr>response_ID = 1, response_JSONRPC = ''2.0'', Result = result, Error = err\<rparr>, None)"

text \<open>The error of a node that rejects a transaction.\<close>

definition node_error :: MoacError where
  "node_error = \<lparr>Code = - 32000, Message = ''insufficient funds''\<rparr>"

text \<open>A node that is down: the POST returns no response and a transport error.\<close>

definition refused :: "http_Response option \<times> error option" where
  "refused = (None, Some (ErrOther ''connection refused''))"

text \<open>A node that answers with the given body.\<close>

definition replies :: "bytes \<Rightarrow> http_Response option \<times> error option" where
  "replies data = (Some \<lparr>Body = (data, None)\<rparr>, None)"



definition json_rejected :: "nat extern" where
  "json_rejected = fake_extern (envelope_of (Some (quoted ''0x1'')) (Some node_error))"

definition rpc_up :: MoacRPC where
  "rpc_up = fake_rpc (replies ''reply'') False"


section \<open>Properties\<close>

subsection \<open>Auxiliary facts\<close>

lemma fst_on_return:
  "fst (on_return f r) = (case fst r of Return x \<Rightarrow> Return (f x) | Panic \<Rightarrow> Panic)"
  by (cases r; cases "fst r") auto

lemma snd_on_return: "snd (on_return f r) = snd r"
  by (cases r; cases "fst r") auto

text \<open>Every error path of \<open>Call\<close> returns a nil result.\<close>

lemma Call_error_nil: "returns (Call X rpc method params) (r, Some e) \<Longrightarrow> r = None"
  by (simp add: returns_def Call_def Let_def split: sum.splits prod.splits option.splits if_splits)

text \<open>\<open>call\<close> hands an error of \<open>Call\<close> on and leaves the target as it was.\<close>

lemma call_of_failed_Call:
  "returns (Call X rpc method params) (r, Some e) \<Longrightarrow>
   returns (call X rpc method unmarshal target params) (target, Some e)"
  by (simp add: call_def returns_def fst_on_return)

text \<open>After a successful \<open>Call\<close>, \<open>call\<close> decodes the raw result into the target.\<close>

lemma call_of_Call:
  "returns (Call X rpc method params) (r, None) \<Longrightarrow>
   returns (call X rpc method unmarshal (Some v) params)
     (Some (fst (unmarshal (raw r) v)), snd (unmarshal (raw r) v))"
  by (simp add: call_def returns_def fst_on_return split: prod.splits)

lemma snd_call: "snd (call X rpc method unmarshal target params) = snd (Call X rpc method params)"
  by (simp add: call_def snd_on_return)


lemma returned_error_unguarded:
  "returns (Call X rpc method params) (r, Some e) \<Longrightarrow>
   returned_error (on_return (\<lambda>(target, err). (g target, err))
              (call X rpc method unmarshal target params)) = Some e"
  by (drule call_of_failed_Call [where unmarshal = unmarshal and target = target])
     (simp add: returns_def returned_error_def fst_on_return)

lemma returned_error_guarded:
  "returns (Call X rpc method params) (r, Some e) \<Longrightarrow>
   returned_error (on_return (\<lambda>(target, err). case err of Some e \<Rightarrow> (z, Some e) | None \<Rightarrow> f target)
              (call X rpc method unmarshal target params)) = Some e"
  by (drule call_of_failed_Call [where unmarshal = unmarshal and target = target])
     (simp add: returns_def returned_error_def fst_on_return)

text \<open>The only body that \<open>Call\<close> posts is the encoding of its request.\<close>

lemma posted_Call:
  "posted (Call X rpc method params) =
     (case Marshal X \<lparr>ID = 1, JSONRPC = ''2.0'', Method = method, Params = params\<rparr> of
        Inl e \<Rightarrow> []
      | Inr body \<Rightarrow> [body])"
  by (simp add: posted_def Call_def Let_def split: sum.splits prod.splits option.splits)

text \<open>An envelope with a populated error field makes \<open>Call\<close> fail with that error.\<close>

lemma Call_envelope_error:
  assumes "received X rpc method params = Some reply"
    and "Unmarshal_ethResponse X reply new_ethResponse = (resp, None)"
    and "Error resp = Some e"
  shows "returns (Call X rpc method params) (None, Some (ErrMoac e))"
  using assms
  by (auto simp: received_def exchange_def returns_def Call_def Let_def
        split: sum.splits prod.splits option.splits)














text \<open>The digits written by \<open>hex_digits\<close> are read back by \<open>hex_value\<close>.\<close>

lemma digit_val_hex_digit: "d < 16 \<Longrightarrow> digit_val (hex_digit d) = Some d"
proof -
  assume "d < 16"
  then have "d \<in> {0, 1, 2, 3, 4, 5, 6, 7, 8, 9, 10, 11, 12, 13, 14, 15}" by simp arith
  then show ?thesis
    by (auto simp: hex_digit_def digit_val_def)
qed

lemma hex_value_append:
  "hex_value acc (xs @ ys) = (case hex_value acc xs of None \<Rightarrow> None | Some v \<Rightarrow> hex_value v ys)"
  by (induction xs arbitrary: acc) (auto split: option.splits)

lemma hex_value_hex_digits: "hex_value 0 (hex_digits n) = Some n"
proof (induction n rule: hex_digits.induct)
  case (1 n)
  show ?case
  proof (cases "n < 16")
    case True
    then show ?thesis by (simp add: digit_val_hex_digit)
  next
    case False
    with 1 have "hex_value 0 (hex_digits (n div 16)) = Some (n div 16)" by simp
    with False show ?thesis
      by (subst hex_digits.simps) (simp add: hex_value_append digit_val_hex_digit)
  qed
qed

lemma hex_digits_not_empty: "hex_digits n \<noteq> []"
  by (subst hex_digits.simps) simp

lemma parse_hex_hex_digits: "parse_hex (''0x'' @ hex_digits n) = Some n"
  by (simp add: parse_hex_def hex_digits_not_empty hex_value_hex_digits del: hex_digits.simps)

subsection \<open>The numeric codec\<close>

text \<open>
  C8. For every non-negative native integer \<open>n\<close> (Go's 64-bit \<open>int\<close>),
  \<open>ParseInt(IntToHex(n))\<close> succeeds and returns \<open>n\<close>: decoding is the inverse of encoding
  on the non-negative native integers.
\<close>

theorem ParseInt_IntToHex:
  assumes "0 \<le> n" and "n < 2 ^ 63"
  shows "ParseInt (IntToHex n) = (n, None)"
proof -
  have "parse_hex (IntToHex n) = Some (nat n)"
    unfolding IntToHex_def by (rule parse_hex_hex_digits)
  moreover from assms have "nat n < 2 ^ 63"
    by (simp add: nat_less_iff)
  ultimately show ?thesis
    using assms(1) by (simp add: ParseInt_def)
qed

text \<open>The round trip at 255, written \<open>0xff\<close>.\<close>

theorem ParseInt_IntToHex_witness:
  "(0::int) \<le> 255 \<and> (255::int) < 2 ^ 63 \<and> IntToHex 255 = ''0xff'' \<and>
   ParseInt (IntToHex 255) = (255, None)"
  using ParseInt_IntToHex [of 255] by (simp add: IntToHex_def hex_digit_def)

subsection \<open>The unit of value\<close>

text \<open>
  C10. The free function \<open>Moac1\<close> and the method \<open>MoacRPC.Moac1\<close> both return the big
  integer 10^18 = 1000000000000000000, whatever the client.
\<close>

theorem Moac1_value:
  "Moac1 = 10 ^ 18 \<and> Moac1 = 1000000000000000000 \<and> MoacRPC_Moac1 rpc = 10 ^ 18"
  by (simp add: Moac1_def MoacRPC_Moac1_def big_NewInt_def)

subsection \<open>The dispatcher\<close>

text \<open>
  C9. \<open>RawCall\<close> returns the same raw result and error as \<open>Call\<close>, with the same
  effects, for every method name, parameter list and behaviour of the collaborators.
\<close>

theorem RawCall_is_Call: "RawCall X rpc method params = Call X rpc method params"
  by (simp add: RawCall_def)

text \<open>
  C3. For every method name and parameter list, the request that \<open>Call\<close> serialises and
  posts has id 1, protocol tag "2.0", the given method and exactly the given parameters
  in the given order: whatever the encoder, the only body posted is the encoding of
  that request, and nothing is posted when it cannot be encoded.
\<close>

theorem Call_request:
  "posted (Call X rpc method params) =
     (case Marshal X \<lparr>ID = 1, JSONRPC = ''2.0'', Method = method, Params = params\<rparr> of
        Inl e \<Rightarrow> []
      | Inr body \<Rightarrow> [body])"
  by (simp add: posted_def Call_def Let_def split: sum.splits prod.splits option.splits)

text \<open>
  C6. When the POST returns a nil response together with an error, \<open>Call\<close> returns a nil
  result and that same error, and the response is left alone: the trace holds the POST
  only, neither a read nor a close of a response body.
\<close>

theorem Call_nil_response:
  assumes "Marshal X \<lparr>ID = 1, JSONRPC = ''2.0'', Method = method, Params = params\<rparr> = Inr body"
    and "client rpc (url rpc) ''application/json'' body = (None, Some err)"
  shows "Call X rpc method params =
           (Return (None, Some err), [Post (url rpc) ''application/json'' body])"
  using assms by (simp add: Call_def)

text \<open>The theorem at a node that is down.\<close>

theorem Call_nil_response_witness:
  "Marshal (fake_extern (envelope_of None None))
     \<lparr>ID = 1, JSONRPC = ''2.0'', Method = ''net_version'', Params = []\<rparr> = Inr ''net_version'' \<and>
   client (fake_rpc refused True) (url (fake_rpc refused True)) ''application/json'' ''net_version''
     = (None, Some (ErrOther ''connection refused'')) \<and>
   Call (fake_extern (envelope_of None None)) (fake_rpc refused True) ''net_version'' [] =
     (Return (None, Some (ErrOther ''connection refused'')),
      [Post ''http://127.0.0.1:8545'' ''application/json'' ''net_version''])"
  using Call_nil_response [of "fake_extern (envelope_of None None)" "''net_version''" "[]"
      "''net_version''" "fake_rpc refused True" "ErrOther ''connection refused''"]
  by (simp add: fake_extern_def fake_rpc_def refused_def)

text \<open>
  C7, as the code has it. The logger is invoked if and only if the debug flag is set and
  the exchange completed (the request was serialised, the POST returned a response and
  no error, and the response body was read in full). It is then handed exactly one
  line, made of the method name, the raw request body and the raw response body; the
  line does not depend on what the envelope decodes to, so it is the same whether the
  call then succeeds, fails to decode or carries an RPC error.
\<close>

theorem Call_debug_line:
  "printed (Call X rpc method params) =
     (case exchange X rpc method params of
        None \<Rightarrow> []
      | Some (body, data) \<Rightarrow> if Debug rpc then [debug_line method body data] else []) \<and>
   debug_line method body data =
     method @ [CHR 0x0A] @ ''Request: '' @ body @ [CHR 0x0A] @ ''Response: '' @ data @ [CHR 0x0A]"
  by (simp add: printed_def exchange_def Call_def Let_def debug_line_def
        split: sum.splits prod.splits option.splits)

text \<open>
  With the debug flag set and the node down, the call fails and nothing is logged: the
  logger is not invoked on every call of a client in debug mode.
\<close>

theorem Call_debug_line_counterexample:
  "Debug (fake_rpc refused True) \<and>
   returns (Call (fake_extern (envelope_of None None)) (fake_rpc refused True) ''net_version'' [])
     (None, Some (ErrOther ''connection refused'')) \<and>
   printed (Call (fake_extern (envelope_of None None)) (fake_rpc refused True) ''net_version'' []) = []"
  by (simp add: Call_def fake_extern_def fake_rpc_def refused_def returns_def printed_def)

subsection \<open>Errors of the node\<close>

text \<open>
  C1. When the response body that a call reads is one whose envelope decodes with a
  populated error field, \<open>Call\<close> returns a nil raw result and the RPC error with the
  code and message of that field, whatever the result field holds; and every typed
  accessor whose call reads such a body returns this same error.
\<close>

theorem rpc_error_is_returned:
  assumes "Unmarshal_ethResponse X reply new_ethResponse = (resp, None)"
    and "Error resp = Some e"
  shows "(received X rpc meth params = Some reply \<longrightarrow>
      returns (Call X rpc meth params) (None, Some (ErrMoac e))) \<and>
    ErrMoac e = ErrMoac \<lparr>Code = Code e, Message = Message e\<rparr> \<and>
    (received X rpc ''chain3_clientVersion'' [] = Some reply \<longrightarrow>
      returned_error (Chain3ClientVersion X rpc) = Some (ErrMoac e)) \<and>
    (received X rpc ''chain3_sha3'' [PString (hex_bytes bs)] = Some reply \<longrightarrow>
      returned_error (Chain3Sha3 X rpc bs) = Some (ErrMoac e)) \<and>
    (received X rpc ''net_version'' [] = Some reply \<longrightarrow>
      returned_error (NetVersion X rpc) = Some (ErrMoac e)) \<and>
    (received X rpc ''net_listening'' [] = Some reply \<longrightarrow>
      returned_error (NetListening X rpc) = Some (ErrMoac e)) \<and>
    (received X rpc ''net_peerCount'' [] = Some reply \<longrightarrow>
      returned_error (NetPeerCount X rpc) = Some (ErrMoac e)) \<and>
    (received X rpc ''mc_protocolVersion'' [] = Some reply \<longrightarrow>
      returned_error (MoacProtocolVersion X rpc) = Some (ErrMoac e)) \<and>
    (received X rpc ''mc_syncing'' [] = Some reply \<longrightarrow>
      returned_error (MoacSyncing X rpc) = Some (ErrMoac e)) \<and>
    (received X rpc ''mc_coinbase'' [] = Some reply \<longrightarrow>
      returned_error (MoacCoinbase X rpc) = Some (ErrMoac e)) \<and>
    (received X rpc ''mc_mining'' [] = Some reply \<longrightarrow>
      returned_error (MoacMining X rpc) = Some (ErrMoac e)) \<and>
    (received X rpc ''mc_hashrate'' [] = Some reply \<longrightarrow>
      returned_error (MoacHashrate X rpc) = Some (ErrMoac e)) \<and>
    (received X rpc ''mc_gasPrice'' [] = Some reply \<longrightarrow>
      returned_error (MoacGasPrice X rpc) = Some (ErrMoac e)) \<and>
    (received X rpc ''mc_accounts'' [] = Some reply \<longrightarrow>
      returned_error (MoacAccounts X rpc) = Some (ErrMoac e)) \<and>
    (received X rpc ''mc_blockNumber'' [] = Some reply \<longrightarrow>
      returned_error (MoacBlockNumber X rpc) = Some (ErrMoac e)) \<and>
    (received X rpc ''mc_getBalance'' [PString address, PString block] = Some reply
        \<longrightarrow>
      returned_error (MoacGetBalance X rpc address block) = Some (ErrMoac e)) \<and>
    (received X rpc ''mc_getStorageAt'' [PString address, PString (IntToHex position), PString
        tag] = Some reply \<longrightarrow>
      returned_error (MoacGetStorageAt X rpc address position tag) = Some (ErrMoac e)) \<and>
    (received X rpc ''mc_getTransactionCount'' [PString address, PString block] = Some reply
        \<longrightarrow>
      returned_error (MoacGetTransactionCount X rpc address block) = Some (ErrMoac e)) \<and>
    (received X rpc ''mc_getBlockTransactionCountByHash'' [PString hash] = Some reply
        \<longrightarrow>
      returned_error (MoacGetBlockTransactionCountByHash X rpc hash) = Some (ErrMoac e)) \<and>
    (received X rpc ''mc_getBlockTransactionCountByNumber'' [PString (IntToHex number)] = Some
        reply \<longrightarrow>
      returned_error (MoacGetBlockTransactionCountByNumber X rpc number) = Some (ErrMoac e))
          \<and>
    (received X rpc ''mc_getUncleCountByBlockHash'' [PString hash] = Some reply \<longrightarrow>
      returned_error (MoacGetUncleCountByBlockHash X rpc hash) = Some (ErrMoac e)) \<and>
    (received X rpc ''mc_getUncleCountByBlockNumber'' [PString (IntToHex number)] = Some reply
        \<longrightarrow>
      returned_error (MoacGetUncleCountByBlockNumber X rpc number) = Some (ErrMoac e)) \<and>
    (received X rpc ''mc_getCode'' [PString address, PString block] = Some reply \<longrightarrow>
      returned_error (MoacGetCode X rpc address block) = Some (ErrMoac e)) \<and>
    (received X rpc ''mc_sign'' [PString address, PString message] = Some reply \<longrightarrow>
      returned_error (MoacSign X rpc address message) = Some (ErrMoac e)) \<and>
    (received X rpc ''mc_sendTransaction'' [PStruct transaction] = Some reply \<longrightarrow>
      returned_error (MoacSendTransaction X rpc transaction) = Some (ErrMoac e)) \<and>
    (received X rpc ''mc_sendRawTransaction'' [PString rawtx] = Some reply \<longrightarrow>
      returned_error (MoacSendRawTransaction X rpc rawtx) = Some (ErrMoac e)) \<and>
    (received X rpc ''mc_call'' [PStruct transaction, PString tag] = Some reply \<longrightarrow>
      returned_error (MoacCall X rpc transaction tag) = Some (ErrMoac e)) \<and>
    (received X rpc ''mc_estimateGas'' [PStruct transaction] = Some reply \<longrightarrow>
      returned_error (MoacEstimateGas X rpc transaction) = Some (ErrMoac e)) \<and>
    (received X rpc meth params = Some reply \<longrightarrow>
      returned_error (getBlock X rpc meth withTransactions params) = Some (ErrMoac e)) \<and>
    (received X rpc ''mc_getBlockByHash'' [PString hash, PBool withTransactions] = Some reply
        \<longrightarrow>
      returned_error (MoacGetBlockByHash X rpc hash withTransactions) = Some (ErrMoac e)) \<and>
    (received X rpc ''mc_getBlockByNumber'' [PString (IntToHex number), PBool withTransactions] =
        Some reply \<longrightarrow>
      returned_error (MoacGetBlockByNumber X rpc number withTransactions) = Some (ErrMoac e))
          \<and>
    (received X rpc meth params = Some reply \<longrightarrow>
      returned_error (getTransaction X rpc meth params) = Some (ErrMoac e)) \<and>
    (received X rpc ''mc_getTransactionByHash'' [PString hash] = Some reply \<longrightarrow>
      returned_error (MoacGetTransactionByHash X rpc hash) = Some (ErrMoac e)) \<and>
    (received X rpc ''mc_getTransactionByBlockHashAndIndex'' [PString hash, PString (IntToHex
        idx)] = Some reply \<longrightarrow>
      returned_error (MoacGetTransactionByBlockHashAndIndex X rpc hash idx) = Some (ErrMoac e))
          \<and>
    (received X rpc ''mc_getTransactionByBlockNumberAndIndex'' [PString (IntToHex number), PString
        (IntToHex idx)] = Some reply \<longrightarrow>
      returned_error (MoacGetTransactionByBlockNumberAndIndex X rpc number idx) = Some (ErrMoac
          e)) \<and>
    (received X rpc ''mc_getTransactionReceipt'' [PString hash] = Some reply \<longrightarrow>
      returned_error (MoacGetTransactionReceipt X rpc hash) = Some (ErrMoac e)) \<and>
    (received X rpc ''mc_getCompilers'' [] = Some reply \<longrightarrow>
      returned_error (MoacGetCompilers X rpc) = Some (ErrMoac e)) \<and>
    (received X rpc ''mc_newFilter'' [PStruct query] = Some reply \<longrightarrow>
      returned_error (MoacNewFilter X rpc query) = Some (ErrMoac e)) \<and>
    (received X rpc ''mc_newBlockFilter'' [] = Some reply \<longrightarrow>
      returned_error (MoacNewBlockFilter X rpc) = Some (ErrMoac e)) \<and>
    (received X rpc ''mc_newPendingTransactionFilter'' [] = Some reply \<longrightarrow>
      returned_error (MoacNewPendingTransactionFilter X rpc) = Some (ErrMoac e)) \<and>
    (received X rpc ''mc_uninstallFilter'' [PString filterID] = Some reply \<longrightarrow>
      returned_error (MoacUninstallFilter X rpc filterID) = Some (ErrMoac e)) \<and>
    (received X rpc ''mc_getFilterChanges'' [PString filterID] = Some reply \<longrightarrow>
      returned_error (MoacGetFilterChanges X rpc filterID) = Some (ErrMoac e)) \<and>
    (received X rpc ''mc_getFilterLogs'' [PString filterID] = Some reply \<longrightarrow>
      returned_error (MoacGetFilterLogs X rpc filterID) = Some (ErrMoac e)) \<and>
    (received X rpc ''mc_getLogs'' [PStruct query] = Some reply \<longrightarrow>
      returned_error (MoacGetLogs X rpc query) = Some (ErrMoac e))"
proof -
  note failed = Call_envelope_error [OF _ assms]
  note unguarded = returned_error_unguarded [OF failed]
    and guarded = returned_error_guarded [OF failed]
  have syncing: "returned_error (MoacSyncing X rpc) = Some (ErrMoac e)"
    if "received X rpc ''mc_syncing'' [] = Some reply"
    using failed [OF that]
    by (simp add: MoacSyncing_def RawCall_def returned_error_def returns_def fst_on_return)
  show ?thesis
    unfolding Let_def
      Chain3ClientVersion_def Chain3Sha3_def NetVersion_def NetListening_def NetPeerCount_def
      MoacProtocolVersion_def MoacCoinbase_def MoacMining_def MoacHashrate_def MoacGasPrice_def
      MoacAccounts_def MoacBlockNumber_def MoacGetBalance_def MoacGetStorageAt_def
      MoacGetTransactionCount_def MoacGetBlockTransactionCountByHash_def
      MoacGetBlockTransactionCountByNumber_def MoacGetUncleCountByBlockHash_def
      MoacGetUncleCountByBlockNumber_def MoacGetCode_def MoacSign_def MoacSendTransaction_def
      MoacSendRawTransaction_def MoacCall_def MoacEstimateGas_def MoacGetBlockByHash_def
      MoacGetBlockByNumber_def MoacGetTransactionByHash_def
      MoacGetTransactionByBlockHashAndIndex_def MoacGetTransactionByBlockNumberAndIndex_def
      MoacGetTransactionReceipt_def MoacGetCompilers_def MoacNewFilter_def
      MoacNewBlockFilter_def MoacNewPendingTransactionFilter_def MoacUninstallFilter_def
      MoacGetFilterChanges_def MoacGetFilterLogs_def MoacGetLogs_def getBlock_def
      getTransaction_def
    by (intro conjI impI;
        (erule failed | erule unguarded | erule guarded | erule syncing | simp))
qed

text \<open>
  The theorem at a node whose envelopes hold both a result and the error -32000: every
  call reads such a body, and \<open>Call\<close> and every accessor return that error.
\<close>

theorem rpc_error_is_returned_witness:
  "received json_rejected rpc_up ''mc_getBlockByNumber'' [PString ''0x1b4'', PBool True] = Some
      ''reply'' \<and>
   received json_rejected rpc_up ''mc_getBalance'' [PString
       ''0x6247cf0412c6462da2a51d05139e2a3c6c630f0a'', PString ''latest''] =
     Some ''reply'' \<and>
   Unmarshal_ethResponse json_rejected ''reply'' new_ethResponse =
     (\<lparr>response_ID = 1, response_JSONRPC = ''2.0'', Result = Some (quoted ''0x1''),
        Error = Some node_error\<rparr>, None) \<and>
   returns (Call json_rejected rpc_up ''mc_getBlockByNumber'' [PString ''0x1b4'', PBool True])
     (None, Some (ErrMoac node_error)) \<and>
   returned_error (Chain3ClientVersion json_rejected rpc_up) =
     Some (ErrMoac node_error) \<and>
   returned_error (Chain3Sha3 json_rejected rpc_up ''abc'') =
     Some (ErrMoac node_error) \<and>
   returned_error (NetVersion json_rejected rpc_up) =
     Some (ErrMoac node_error) \<and>
   returned_error (NetListening json_rejected rpc_up) =
     Some (ErrMoac node_error) \<and>
   returned_error (NetPeerCount json_rejected rpc_up) =
     Some (ErrMoac node_error) \<and>
   returned_error (MoacProtocolVersion json_rejected rpc_up) =
     Some (ErrMoac node_error) \<and>
   returned_error (MoacSyncing json_rejected rpc_up) =
     Some (ErrMoac node_error) \<and>
   returned_error (MoacCoinbase json_rejected rpc_up) =
     Some (ErrMoac node_error) \<and>
   returned_error (MoacMining json_rejected rpc_up) =
     Some (ErrMoac node_error) \<and>
   returned_error (MoacHashrate json_rejected rpc_up) =
     Some (ErrMoac node_error) \<and>
   returned_error (MoacGasPrice json_rejected rpc_up) =
     Some (ErrMoac node_error) \<and>
   returned_error (MoacAccounts json_rejected rpc_up) =
     Some (ErrMoac node_error) \<and>
   returned_error (MoacBlockNumber json_rejected rpc_up) =
     Some (ErrMoac node_error) \<and>
   returned_error (MoacGetBalance json_rejected rpc_up
       ''0x6247cf0412c6462da2a51d05139e2a3c6c630f0a'' ''latest'') =
     Some (ErrMoac node_error) \<and>
   returned_error (MoacGetStorageAt json_rejected rpc_up
       ''0x6247cf0412c6462da2a51d05139e2a3c6c630f0a'' 0 ''latest'') =
     Some (ErrMoac node_error) \<and>
   returned_error (MoacGetTransactionCount json_rejected rpc_up
       ''0x6247cf0412c6462da2a51d05139e2a3c6c630f0a'' ''latest'') =
     Some (ErrMoac node_error) \<and>
   returned_error (MoacGetBlockTransactionCountByHash json_rejected rpc_up ''0x0b'') =
     Some (ErrMoac node_error) \<and>
   returned_error (MoacGetBlockTransactionCountByNumber json_rejected rpc_up 436) =
     Some (ErrMoac node_error) \<and>
   returned_error (MoacGetUncleCountByBlockHash json_rejected rpc_up ''0x0b'') =
     Some (ErrMoac node_error) \<and>
   returned_error (MoacGetUncleCountByBlockNumber json_rejected rpc_up 436) =
     Some (ErrMoac node_error) \<and>
   returned_error (MoacGetCode json_rejected rpc_up ''0x6247cf0412c6462da2a51d05139e2a3c6c630f0a''
       ''latest'') =
     Some (ErrMoac node_error) \<and>
   returned_error (MoacSign json_rejected rpc_up ''0x6247cf0412c6462da2a51d05139e2a3c6c630f0a''
       ''0xdeadbeaf'') =
     Some (ErrMoac node_error) \<and>
   returned_error (MoacSendTransaction json_rejected rpc_up 7) =
     Some (ErrMoac node_error) \<and>
   returned_error (MoacSendRawTransaction json_rejected rpc_up ''0xd46e'') =
     Some (ErrMoac node_error) \<and>
   returned_error (MoacCall json_rejected rpc_up 7 ''latest'') =
     Some (ErrMoac node_error) \<and>
   returned_error (MoacEstimateGas json_rejected rpc_up 7) =
     Some (ErrMoac node_error) \<and>
   returned_error (getBlock json_rejected rpc_up ''mc_getBlockByNumber'' True [PString ''0x1b4'',
       PBool True]) =
     Some (ErrMoac node_error) \<and>
   returned_error (MoacGetBlockByHash json_rejected rpc_up ''0x0b'' True) =
     Some (ErrMoac node_error) \<and>
   returned_error (MoacGetBlockByNumber json_rejected rpc_up 436 True) =
     Some (ErrMoac node_error) \<and>
   returned_error (getTransaction json_rejected rpc_up ''mc_getBlockByNumber'' [PString ''0x1b4'',
       PBool True]) =
     Some (ErrMoac node_error) \<and>
   returned_error (MoacGetTransactionByHash json_rejected rpc_up ''0x0b'') =
     Some (ErrMoac node_error) \<and>
   returned_error (MoacGetTransactionByBlockHashAndIndex json_rejected rpc_up ''0x0b'' 0) =
     Some (ErrMoac node_error) \<and>
   returned_error (MoacGetTransactionByBlockNumberAndIndex json_rejected rpc_up 436 0) =
     Some (ErrMoac node_error) \<and>
   returned_error (MoacGetTransactionReceipt json_rejected rpc_up ''0x0b'') =
     Some (ErrMoac node_error) \<and>
   returned_error (MoacGetCompilers json_rejected rpc_up) =
     Some (ErrMoac node_error) \<and>
   returned_error (MoacNewFilter json_rejected rpc_up 9) =
     Some (ErrMoac node_error) \<and>
   returned_error (MoacNewBlockFilter json_rejected rpc_up) =
     Some (ErrMoac node_error) \<and>
   returned_error (MoacNewPendingTransactionFilter json_rejected rpc_up) =
     Some (ErrMoac node_error) \<and>
   returned_error (MoacUninstallFilter json_rejected rpc_up ''0x16'') =
     Some (ErrMoac node_error) \<and>
   returned_error (MoacGetFilterChanges json_rejected rpc_up ''0x16'') =
     Some (ErrMoac node_error) \<and>
   returned_error (MoacGetFilterLogs json_rejected rpc_up ''0x16'') =
     Some (ErrMoac node_error) \<and>
   returned_error (MoacGetLogs json_rejected rpc_up 9) =
     Some (ErrMoac node_error)"
proof -
  let ?resp = "\<lparr>response_ID = 1, response_JSONRPC = ''2.0'', Result = Some (quoted
      ''0x1''),
      Error = Some node_error\<rparr>"
  have h1: "Unmarshal_ethResponse json_rejected ''reply'' new_ethResponse = (?resp, None)"
    by (simp add: json_rejected_def fake_extern_def envelope_of_def)
  have h2: "Error ?resp = Some node_error"
    by simp
  have h3: "received json_rejected rpc_up m ps = Some ''reply''" for m ps
    by (simp add: received_def exchange_def json_rejected_def rpc_up_def fake_extern_def
          fake_rpc_def replies_def)
  show ?thesis
    using h1 h3 rpc_error_is_returned [OF h1 h2, where rpc = rpc_up
        and bs = "''abc''"
        and address = "''0x6247cf0412c6462da2a51d05139e2a3c6c630f0a''"
        and block = "''latest''"
        and position = "0"
        and tag = "''latest''"
        and hash = "''0x0b''"
        and number = "436"
        and message = "''0xdeadbeaf''"
        and transaction = "7"
        and rawtx = "''0xd46e''"
        and withTransactions = "True"
        and idx = "0"
        and query = "9"
        and filterID = "''0x16''"
        and meth = "''mc_getBlockByNumber''"
        and params = "[PString ''0x1b4'', PBool True]"]
    by simp
qed

subsection \<open>The sync status\<close>

text \<open>
  C2. When the raw result of the call is byte for byte the literal \<open>false\<close>,
  \<open>MoacSyncing\<close> returns the zero-valued status (not syncing, the three block numbers 0)
  and a nil error; for every other raw result it returns what unmarshalling those bytes
  into a new \<open>Syncing\<close> gives, the status and the error.
\<close>

theorem MoacSyncing_result:
  assumes "returns (Call X rpc ''mc_syncing'' []) (result, None)"
  shows "returns (MoacSyncing X rpc)
           (if raw result = ''false''
            then (Some \<lparr>IsSyncing = False, StartingBlock = 0, CurrentBlock = 0, HighestBlock = 0\<rparr>,
                  None)
            else (Some (fst (Unmarshal_Syncing X (raw result) new_Syncing)),
                  snd (Unmarshal_Syncing X (raw result) new_Syncing)))"
  using assms
  by (simp add: MoacSyncing_def RawCall_def returns_def fst_on_return new_Syncing_def Let_def
        split: prod.splits)

text \<open>
  The theorem at a node whose result is \<open>false\<close>, and at a node whose result is a status
  object.
\<close>

theorem MoacSyncing_result_witness:
  "returns (Call (fake_extern (envelope_of (Some ''false'') None)) (fake_rpc (replies ''reply'') False)
      ''mc_syncing'' []) (Some ''false'', None) \<and>
   returns (MoacSyncing (fake_extern (envelope_of (Some ''false'') None)) (fake_rpc (replies ''reply'') False))
     (Some \<lparr>IsSyncing = False, StartingBlock = 0, CurrentBlock = 0, HighestBlock = 0\<rparr>, None) \<and>
   returns (Call (fake_extern (envelope_of (Some ''{}'') None)) (fake_rpc (replies ''reply'') False)
      ''mc_syncing'' []) (Some ''{}'', None) \<and>
   returns (MoacSyncing (fake_extern (envelope_of (Some ''{}'') None)) (fake_rpc (replies ''reply'') False))
     (Some \<lparr>IsSyncing = True, StartingBlock = 1, CurrentBlock = 2, HighestBlock = 3\<rparr>, None)"
proof -
  let ?rpc = "fake_rpc (replies ''reply'') False"
  have h1: "returns (Call (fake_extern (envelope_of (Some ''false'') None)) ?rpc ''mc_syncing'' [])
      (Some ''false'', None)"
    by (simp add: returns_def Call_def fake_extern_def fake_rpc_def replies_def envelope_of_def)
  have h2: "returns (Call (fake_extern (envelope_of (Some ''{}'') None)) ?rpc ''mc_syncing'' [])
      (Some ''{}'', None)"
    by (simp add: returns_def Call_def fake_extern_def fake_rpc_def replies_def envelope_of_def)
  show ?thesis
    using h1 h2 MoacSyncing_result [OF h1] MoacSyncing_result [OF h2]
    by (simp add: raw_def fake_extern_def)
qed

subsection \<open>The balance of an account\<close>

text \<open>
  C5. \<open>MoacGetBalance(address, block)\<close> posts the request with method "mc_getBalance" and
  the parameters address and block, in that order; and when the response holds a
  result that is the hex string "0xde0b6b3a7640000" and no error, it returns the big
  integer 1000000000000000000 and a nil error. (\<open>ParseBigInt\<close> is the one modelled from
  the spec.)
\<close>

theorem MoacGetBalance_scenario:
  assumes "Marshal X \<lparr>ID = 1, JSONRPC = ''2.0'', Method = ''mc_getBalance'',
             Params = [PString address, PString block]\<rparr> = Inr body"
    and "client rpc (url rpc) ''application/json'' body = (Some response, None)"
    and "Body response = (reply, None)"
    and "Unmarshal_ethResponse X reply new_ethResponse =
           (\<lparr>response_ID = 1, response_JSONRPC = ''2.0'', Result = Some result, Error = None\<rparr>, None)"
    and "Unmarshal_string X result '''' = (''0xde0b6b3a7640000'', None)"
  shows "posted (MoacGetBalance X rpc address block) = [body] \<and>
         returns (MoacGetBalance X rpc address block) (1000000000000000000, None)"
proof -
  from assms(1-4) have "returns (Call X rpc ''mc_getBalance'' [PString address, PString block])
      (Some result, None)"
    by (simp add: returns_def Call_def Let_def)
  from call_of_Call [OF this, where unmarshal = "Unmarshal_string X" and v = "''''"] assms(5)
  have "returns (call X rpc ''mc_getBalance'' (Unmarshal_string X) (Some '''')
      [PString address, PString block]) (Some ''0xde0b6b3a7640000'', None)"
    by (simp add: raw_def)
  then have "returns (MoacGetBalance X rpc address block) (ParseBigInt ''0xde0b6b3a7640000'')"
    by (simp add: MoacGetBalance_def returns_def fst_on_return pointee_def)
  moreover have "ParseBigInt ''0xde0b6b3a7640000'' = (1000000000000000000, None)"
    by (simp add: ParseBigInt_def parse_hex_def digit_val_def)
  moreover have "posted (MoacGetBalance X rpc address block) = [body]"
    using assms(1)
    by (simp add: posted_def MoacGetBalance_def snd_on_return snd_call
          posted_Call [unfolded posted_def])
  ultimately show ?thesis by simp
qed

text \<open>
  The scenario at the fake node: the request posted is the one for "mc_getBalance", the
  response holds the quoted hex string, and the balance is 1 MOAC.
\<close>

theorem MoacGetBalance_scenario_witness:
  "posted (MoacGetBalance (fake_extern (envelope_of (Some (quoted ''0xde0b6b3a7640000'')) None))
      (fake_rpc (replies ''reply'') False) ''0xabc'' ''latest'') = [''mc_getBalance 0xabc latest''] \<and>
   returns (MoacGetBalance (fake_extern (envelope_of (Some (quoted ''0xde0b6b3a7640000'')) None))
      (fake_rpc (replies ''reply'') False) ''0xabc'' ''latest'') (1000000000000000000, None)"
proof -
  let ?X = "fake_extern (envelope_of (Some (quoted ''0xde0b6b3a7640000'')) None)"
  let ?rpc = "fake_rpc (replies ''reply'') False"
  have h1: "Marshal ?X \<lparr>ID = 1, JSONRPC = ''2.0'', Method = ''mc_getBalance'',
      Params = [PString ''0xabc'', PString ''latest'']\<rparr> = Inr ''mc_getBalance 0xabc latest''"
    by (simp add: fake_extern_def fake_param_def)
  have h2: "client ?rpc (url ?rpc) ''application/json'' ''mc_getBalance 0xabc latest''
      = (Some \<lparr>Body = (''reply'', None)\<rparr>, None)"
    by (simp add: fake_rpc_def replies_def)
  have h3: "Body \<lparr>Body = (''reply'', None)\<rparr> = (''reply'', None)"
    by simp
  have h4: "Unmarshal_ethResponse ?X ''reply'' new_ethResponse =
      (\<lparr>response_ID = 1, response_JSONRPC = ''2.0'',
         Result = Some (quoted ''0xde0b6b3a7640000''), Error = None\<rparr>, None)"
    by (simp add: fake_extern_def envelope_of_def)
  have h5: "Unmarshal_string ?X (quoted ''0xde0b6b3a7640000'') '''' = (''0xde0b6b3a7640000'', None)"
    by (simp add: fake_extern_def quoted_def unquote_def)
  show ?thesis
    using MoacGetBalance_scenario [OF h1 h2 h3 h4 h5] by simp
qed

subsection \<open>What an accessor returns with an error\<close>




end
